theory Spec2Isabelle
  imports Complex_Main
begin

section \<open>Data model of the page component (frontend/app/page.tsx)\<close>

text \<open>
  JavaScript numbers are modelled as reals: the transform handlers only copy, compare
  (\<open>Math.max\<close>) and rescale them, and the camera fit is one closed formula. Strings
  are \<open>string\<close>; a nullable string is a \<open>string option\<close>.
\<close>

datatype axis = X | Y | Z

record vec3 =
  vx :: real
  vy :: real
  vz :: real

definition vec :: "real \<Rightarrow> real \<Rightarrow> real \<Rightarrow> vec3" where
  "vec a b c = \<lparr>vx = a, vy = b, vz = c\<rparr>"

text \<open>Reading \<open>v[axis]\<close> and building \<open>{ ...v, [axis]: value }\<close>.\<close>

fun get_axis :: "axis \<Rightarrow> vec3 \<Rightarrow> real" where
  "get_axis X v = vx v"
| "get_axis Y v = vy v"
| "get_axis Z v = vz v"

fun set_axis :: "axis \<Rightarrow> real \<Rightarrow> vec3 \<Rightarrow> vec3" where
  "set_axis X a v = v\<lparr>vx := a\<rparr>"
| "set_axis Y a v = v\<lparr>vy := a\<rparr>"
| "set_axis Z a v = v\<lparr>vz := a\<rparr>"

text \<open>
  A generated \<open>THREE.Mesh\<close> object: its vertex data, the disposal state of the four
  GPU resources it owns (its own geometry and material, and the \<open>EdgesGeometry\<close> and
  \<open>LineBasicMaterial\<close> of the child \<open>LineSegments\<close> added with \<open>mesh.add(wireframe)\<close>),
  and its applied transform (rotation in radians).
\<close>

record mesh =
  geometry :: "vec3 list"
  geometry_disposed :: bool
  material_disposed :: bool
  wireframe_geometry_disposed :: bool
  wireframe_material_disposed :: bool
  mesh_position :: vec3
  mesh_scale :: vec3
  mesh_rotation :: vec3

record camera =
  fov :: real
  cam_position :: vec3
  cam_target :: vec3

text \<open>
  The component state: the \<open>useState\<close> cells and the \<open>useRef\<close> cells of \<open>Home\<close>.
  Mesh objects live in \<open>heap\<close> and are referred to by index, because the scene and
  \<open>meshRef\<close> share them; \<open>sceneRef\<close> holds the generated meshes among the scene's
  children (lights, grid and axes are never touched by the handlers).
\<close>

record state =
  prompt :: string
  generatedCode :: string
  loading :: bool
  error :: "string option"
  currentStlData :: "string option"
  position :: vec3
  scale :: vec3
  rotation :: vec3
  isDarkMode :: bool
  sceneRef :: "nat list option"
  cameraRef :: "camera option"
  controlsRef :: bool
  meshRef :: "nat option"
  heap :: "mesh list"

text \<open>The body of the POST request sent to the generation endpoint.\<close>

record request =
  req_prompt :: string
  current_stl_data :: "string option"
  current_code :: "string option"

text \<open>
  What the outside world returns to one run of \<open>handleGenerate\<close>. A thrown value is either
  an \<open>Error\<close> object with its message or something else (the \<open>catch\<close> block tells
  them apart). \<open>fetch_res\<close> is the outcome of \<open>await fetch(...)\<close>, \<open>json_res\<close> of
  \<open>await response.json()\<close>, \<open>atob_res\<close> of \<open>atob(data.stl_data)\<close> and \<open>parse_res\<close> of
  \<open>loader.parse(stlBinary.buffer)\<close>; each is consulted only where the handler makes
  that call.
\<close>

datatype thrown = JsError string | OtherThrown

record response =
  ok :: bool
  body_text :: string

record json_data =
  stl_data :: string
  openscad_code :: string

record ext =
  fetch_res :: "thrown + response"
  json_res :: "thrown + json_data"
  atob_res :: "thrown + string"
  parse_res :: "thrown + vec3 list"

section \<open>Library operations used by the handlers\<close>

text \<open>
  \<open>String.prototype.trim\<close> on code units below 256: TAB, LF, VT, FF, CR, SPACE and NBSP
  are white space.
\<close>

definition is_space :: "char \<Rightarrow> bool" where
  "is_space c = ((of_char c :: nat) \<in> set [9, 10, 11, 12, 13, 32, 160])"

definition trim :: "string \<Rightarrow> string" where
  "trim s = rev (dropWhile is_space (rev (dropWhile is_space s)))"

text \<open>JavaScript truthiness of a string and of a nullable string.\<close>

definition truthy :: "string \<Rightarrow> bool" where
  "truthy s = (s \<noteq> [])"

definition truthy_opt :: "string option \<Rightarrow> bool" where
  "truthy_opt v = (case v of None \<Rightarrow> False | Some s \<Rightarrow> truthy s)"

text \<open>
  \<open>THREE.Box3\<close>: \<open>None\<close> is the empty box. \<open>getCenter\<close> and \<open>getSize\<close> return the
  zero vector on the empty box.
\<close>

type_synonym box3 = "(vec3 \<times> vec3) option"

fun expandByPoint :: "vec3 \<Rightarrow> box3 \<Rightarrow> box3" where
  "expandByPoint p None = Some (p, p)"
| "expandByPoint p (Some (lo, hi)) =
     Some (vec (min (vx lo) (vx p)) (min (vy lo) (vy p)) (min (vz lo) (vz p)),
           vec (max (vx hi) (vx p)) (max (vy hi) (vy p)) (max (vz hi) (vz p)))"

definition setFromPoints :: "vec3 list \<Rightarrow> box3" where
  "setFromPoints ps = fold expandByPoint ps None"

fun getCenter :: "box3 \<Rightarrow> vec3" where
  "getCenter None = vec 0 0 0"
| "getCenter (Some (lo, hi)) =
     vec ((vx lo + vx hi) * 0.5) ((vy lo + vy hi) * 0.5) ((vz lo + vz hi) * 0.5)"

fun getSize :: "box3 \<Rightarrow> vec3" where
  "getSize None = vec 0 0 0"
| "getSize (Some (lo, hi)) = vec (vx hi - vx lo) (vy hi - vy lo) (vz hi - vz lo)"

definition translate :: "real \<Rightarrow> real \<Rightarrow> real \<Rightarrow> vec3 list \<Rightarrow> vec3 list" where
  "translate a b c ps = map (\<lambda>p. vec (vx p + a) (vy p + b) (vz p + c)) ps"

text \<open>\<open>new THREE.Mesh(geometry, material)\<close> with the wireframe child: nothing disposed,
  identity transform.\<close>

definition new_mesh :: "vec3 list \<Rightarrow> mesh" where
  "new_mesh g = \<lparr>geometry = g,
     geometry_disposed = False, material_disposed = False,
     wireframe_geometry_disposed = False, wireframe_material_disposed = False,
     mesh_position = vec 0 0 0, mesh_scale = vec 1 1 1, mesh_rotation = vec 0 0 0\<rparr>"

text \<open>Mutating the object behind a reference.\<close>

definition update_mesh :: "nat \<Rightarrow> (mesh \<Rightarrow> mesh) \<Rightarrow> mesh list \<Rightarrow> mesh list" where
  "update_mesh i f h = (if i < length h then h[i := f (h ! i)] else h)"

section \<open>The component\<close>

text \<open>Initial \<open>useState\<close>/\<open>useRef\<close> values of \<open>Home\<close> (lines 10-25).\<close>

definition initial :: state where
  "initial = \<lparr>prompt = [], generatedCode = [], loading = False, error = None,
     currentStlData = None, position = vec 0 0 0, scale = vec 1 1 1,
     rotation = vec 0 0 0, isDarkMode = True, sceneRef = None, cameraRef = None,
     controlsRef = False, meshRef = None, heap = []\<rparr>"

text \<open>The scene effect (lines 28-110), run on mount and again whenever \<open>isDarkMode\<close>
  changes: a fresh scene, camera (field of view 75, at (30, 30, 30)) and controls.\<close>

definition init_scene :: "state \<Rightarrow> state" where
  "init_scene s = s\<lparr>sceneRef := Some [],
     cameraRef := Some \<lparr>fov = 75, cam_position = vec 30 30 30, cam_target = vec 0 0 0\<rparr>,
     controlsRef := True\<rparr>"

definition mounted :: state where
  "mounted = init_scene initial"

subsection \<open>handleGenerate (lines 113-223)\<close>

text \<open>
  The synchronous part up to \<open>await fetch(...)\<close>: the empty-prompt check, the three
  setters, and the request body. \<open>prompt\<close>, \<open>currentStlData\<close> and \<open>generatedCode\<close> are
  the values of the render the handler closes over, so the body is built from the state
  before \<open>setGeneratedCode('')\<close> takes effect. The result is the new state and the
  requests issued.
\<close>

definition request_body :: "state \<Rightarrow> request" where
  "request_body s =
     (let requestBody = \<lparr>req_prompt = prompt s, current_stl_data = None, current_code = None\<rparr>
      in if truthy_opt (currentStlData s) \<and> truthy (generatedCode s)
         then requestBody\<lparr>current_stl_data := currentStlData s,
                          current_code := Some (generatedCode s)\<rparr>
         else requestBody)"

definition handleGenerate_start :: "state \<Rightarrow> state \<times> request list" where
  "handleGenerate_start s =
     (if \<not> truthy (trim (prompt s))
      then (s\<lparr>error := Some ''Please enter a description''\<rparr>, [])
      else (s\<lparr>loading := True, error := None, generatedCode := []\<rparr>, [request_body s]))"

text \<open>The \<open>catch\<close> and \<open>finally\<close> blocks (lines 218-222).\<close>

definition finally_block :: "state \<Rightarrow> state" where
  "finally_block s = s\<lparr>loading := False\<rparr>"

definition catch_block :: "thrown \<Rightarrow> state \<Rightarrow> state" where
  "catch_block err s =
     finally_block (s\<lparr>error := Some (case err of JsError message \<Rightarrow> message
                                  | OtherThrown \<Rightarrow> ''Unknown error'')\<rparr>)"

text \<open>Lines 156-161: remove the previous mesh from the scene and dispose its geometry
  and material.\<close>

definition clear_previous_mesh :: "state \<Rightarrow> state" where
  "clear_previous_mesh s =
     (case (meshRef s, sceneRef s) of
        (Some i, Some children) \<Rightarrow>
          s\<lparr>sceneRef := Some (remove1 i children),
            heap := update_mesh i
              (\<lambda>m. m\<lparr>geometry_disposed := True, material_disposed := True\<rparr>) (heap s)\<rparr>
      | _ \<Rightarrow> s)"

text \<open>Lines 167-173: move the bounding-box centre of the geometry to the origin.\<close>

definition center_geometry :: "vec3 list \<Rightarrow> vec3 list" where
  "center_geometry g =
     (let center = getCenter (setFromPoints g)
      in translate (- vx center) (- vy center) (- vz center) g)"

text \<open>
  Lines 203-213, the camera fit. \<open>new THREE.Box3().setFromObject(mesh)\<close> is taken on the
  mesh just built, whose transform is the identity and whose wireframe child uses the
  same vertices, so the box is that of the mesh geometry.
\<close>

definition fit_camera :: "camera \<Rightarrow> mesh \<Rightarrow> camera" where
  "fit_camera cam m =
     (let size = getSize (setFromPoints (geometry m));
          maxDim = max (max (vx size) (vy size)) (vz size);
          fov = fov cam * (pi / 180);
          cameraZ = \<bar>maxDim / 2 / tan (fov / 2)\<bar>;
          cameraZ = cameraZ * 1.5
      in cam\<lparr>cam_position := vec cameraZ cameraZ cameraZ, cam_target := vec 0 0 0\<rparr>)"

text \<open>Lines 163-216: parse succeeded; build the mesh, install it, fit the camera, clear
  the prompt.\<close>

definition install_mesh :: "vec3 list \<Rightarrow> state \<Rightarrow> state" where
  "install_mesh parsed s =
     (let m = new_mesh (center_geometry parsed);
          i = length (heap s);
          s1 = s\<lparr>heap := heap s @ [m], meshRef := Some i\<rparr>;
          s2 = (case sceneRef s1 of
                  Some children \<Rightarrow> s1\<lparr>sceneRef := Some (children @ [i])\<rparr>
                | None \<Rightarrow> s1);
          s3 = (case (sceneRef s2, cameraRef s2, controlsRef s2) of
                  (Some _, Some cam, True) \<Rightarrow> s2\<lparr>cameraRef := Some (fit_camera cam m)\<rparr>
                | _ \<Rightarrow> s2)
      in s3\<lparr>prompt := []\<rparr>)"

text \<open>The continuation after \<open>await fetch(...)\<close> (lines 141-222). It reads the refs and
  calls setters; it reads no state variable of the closure.\<close>

definition handleGenerate_finish :: "ext \<Rightarrow> state \<Rightarrow> state" where
  "handleGenerate_finish e s =
     (case fetch_res e of
        Inl err \<Rightarrow> catch_block err s
      | Inr response \<Rightarrow>
          if \<not> ok response then catch_block (JsError (body_text response)) s
          else (case json_res e of
                  Inl err \<Rightarrow> catch_block err s
                | Inr data \<Rightarrow>
                    (case atob_res e of
                       Inl err \<Rightarrow> catch_block err s
                     | Inr stlBinary \<Rightarrow>
                         (let s1 = s\<lparr>generatedCode := openscad_code data,
                                     currentStlData := Some (stl_data data)\<rparr>;
                              s2 = clear_previous_mesh s1
                          in case parse_res e of
                               Inl err \<Rightarrow> catch_block err s2
                             | Inr parsed \<Rightarrow> finally_block (install_mesh parsed s2)))))"

text \<open>One whole call with nothing interleaved during the \<open>await\<close>.\<close>

definition handleGenerate :: "ext \<Rightarrow> state \<Rightarrow> state \<times> request list" where
  "handleGenerate e s =
     (case handleGenerate_start s of
        (s1, []) \<Rightarrow> (s1, [])
      | (s1, reqs) \<Rightarrow> (handleGenerate_finish e s1, reqs))"

subsection \<open>Transform handlers (lines 246-286)\<close>

definition updatePosition :: "axis \<Rightarrow> real \<Rightarrow> state \<Rightarrow> state" where
  "updatePosition a v s =
     (let newPos = set_axis a v (position s);
          s1 = s\<lparr>position := newPos\<rparr>
      in case meshRef s1 of
           Some i \<Rightarrow> s1\<lparr>heap := update_mesh i
                       (\<lambda>m. m\<lparr>mesh_position := vec (vx newPos) (vy newPos) (vz newPos)\<rparr>)
                       (heap s1)\<rparr>
         | None \<Rightarrow> s1)"

definition updateScale :: "axis \<Rightarrow> real \<Rightarrow> state \<Rightarrow> state" where
  "updateScale a v s =
     (let newScale = set_axis a (max 0.1 v) (scale s);
          s1 = s\<lparr>scale := newScale\<rparr>
      in case meshRef s1 of
           Some i \<Rightarrow> s1\<lparr>heap := update_mesh i
                       (\<lambda>m. m\<lparr>mesh_scale := vec (vx newScale) (vy newScale) (vz newScale)\<rparr>)
                       (heap s1)\<rparr>
         | None \<Rightarrow> s1)"

definition updateRotation :: "axis \<Rightarrow> real \<Rightarrow> state \<Rightarrow> state" where
  "updateRotation a v s =
     (let newRot = set_axis a v (rotation s);
          s1 = s\<lparr>rotation := newRot\<rparr>
      in case meshRef s1 of
           Some i \<Rightarrow> s1\<lparr>heap := update_mesh i
                       (\<lambda>m. m\<lparr>mesh_rotation := vec ((vx newRot * pi) / 180)
                                                    ((vy newRot * pi) / 180)
                                                    ((vz newRot * pi) / 180)\<rparr>)
                       (heap s1)\<rparr>
         | None \<Rightarrow> s1)"

definition resetTransforms :: "state \<Rightarrow> state" where
  "resetTransforms s =
     (let s1 = s\<lparr>position := vec 0 0 0, scale := vec 1 1 1, rotation := vec 0 0 0\<rparr>
      in case meshRef s1 of
           Some i \<Rightarrow> s1\<lparr>heap := update_mesh i
                       (\<lambda>m. m\<lparr>mesh_position := vec 0 0 0, mesh_scale := vec 1 1 1,
                              mesh_rotation := vec 0 0 0\<rparr>)
                       (heap s1)\<rparr>
         | None \<Rightarrow> s1)"

subsection \<open>User interface events\<close>

text \<open>
  The events the rendered page can deliver, paired with the requests in flight.
  The generate button is \<open>disabled={loading}\<close> (line 640); the textarea's \<open>onKeyDown\<close>
  (lines 608-613) calls \<open>handleGenerate\<close> on Enter without Shift. The transform controls
  are rendered only while \<open>meshRef.current\<close> is set (line 446). \<open>Respond\<close> resumes the
  oldest pending \<open>handleGenerate\<close> with what the outside world returned.
\<close>

datatype event =
    SetPrompt string
  | KeyDown string bool
  | ClickGenerate
  | Respond ext
  | UpdatePosition axis real
  | UpdateScale axis real
  | UpdateRotation axis real
  | ResetTransforms
  | ToggleTheme

fun issue :: "state \<times> request list \<Rightarrow> request list \<Rightarrow> state \<times> request list" where
  "issue (s, new) pending = (s, pending @ new)"

fun step :: "event \<Rightarrow> state \<times> request list \<Rightarrow> state \<times> request list" where
  "step (SetPrompt p) (s, pending) = (s\<lparr>prompt := p\<rparr>, pending)"
| "step (KeyDown key shiftKey) (s, pending) =
     (if key = ''Enter'' \<and> \<not> shiftKey then issue (handleGenerate_start s) pending
      else (s, pending))"
| "step ClickGenerate (s, pending) =
     (if loading s then (s, pending) else issue (handleGenerate_start s) pending)"
| "step (Respond e) (s, pending) =
     (case pending of [] \<Rightarrow> (s, pending) | r # rest \<Rightarrow> (handleGenerate_finish e s, rest))"
| "step (UpdatePosition a v) (s, pending) =
     (if meshRef s = None then (s, pending) else (updatePosition a v s, pending))"
| "step (UpdateScale a v) (s, pending) =
     (if meshRef s = None then (s, pending) else (updateScale a v s, pending))"
| "step (UpdateRotation a v) (s, pending) =
     (if meshRef s = None then (s, pending) else (updateRotation a v s, pending))"
| "step ResetTransforms (s, pending) =
     (if meshRef s = None then (s, pending) else (resetTransforms s, pending))"
| "step ToggleTheme (s, pending) = (init_scene (s\<lparr>isDarkMode := \<not> isDarkMode s\<rparr>), pending)"

fun run :: "event list \<Rightarrow> state \<times> request list \<Rightarrow> state \<times> request list" where
  "run [] c = c"
| "run (ev # evs) c = run evs (step ev c)"

section \<open>Example inputs\<close>

text \<open>
  A successful response carrying one facet, an HTTP 500 response with body
  \<open>bad prompt\<close>, a success response whose payload is not base64, and a success response
  whose mesh has all vertices at one point.
\<close>

definition cube_ext :: ext where
  "cube_ext = \<lparr>fetch_res = Inr \<lparr>ok = True, body_text = []\<rparr>,
     json_res = Inr \<lparr>stl_data = ''c29saWQ='', openscad_code = ''cube(10);''\<rparr>,
     atob_res = Inr ''solid'',
     parse_res = Inr [vec 0 0 0, vec 10 0 0, vec 0 10 0]\<rparr>"

definition bad_prompt_ext :: ext where
  "bad_prompt_ext = \<lparr>fetch_res = Inr \<lparr>ok = False, body_text = ''bad prompt''\<rparr>,
     json_res = Inl OtherThrown, atob_res = Inl OtherThrown, parse_res = Inl OtherThrown\<rparr>"

definition bad_base64_ext :: ext where
  "bad_base64_ext = \<lparr>fetch_res = Inr \<lparr>ok = True, body_text = []\<rparr>,
     json_res = Inr \<lparr>stl_data = ''%%%'', openscad_code = ''cube(10);''\<rparr>,
     atob_res = Inl (JsError ''The string to be decoded is not correctly encoded.''),
     parse_res = Inl OtherThrown\<rparr>"

definition point_ext :: ext where
  "point_ext = \<lparr>fetch_res = Inr \<lparr>ok = True, body_text = []\<rparr>,
     json_res = Inr \<lparr>stl_data = ''c29saWQ='', openscad_code = ''cube(0);''\<rparr>,
     atob_res = Inr ''solid'',
     parse_res = Inr [vec 1 2 3, vec 1 2 3, vec 1 2 3]\<rparr>"

text \<open>A success response whose payload decodes but is not a mesh.\<close>

definition bad_stl_ext :: ext where
  "bad_stl_ext = \<lparr>fetch_res = Inr \<lparr>ok = True, body_text = []\<rparr>,
     json_res = Inr \<lparr>stl_data = ''AAAA'', openscad_code = ''cube(1);''\<rparr>,
     atob_res = Inr [CHR 0x00, CHR 0x00, CHR 0x00],
     parse_res = Inl (JsError ''Offset is outside the bounds of the DataView'')\<rparr>"

text \<open>One model generated and a refinement prompt typed.\<close>

definition refining :: state where
  "refining = fst (run [SetPrompt ''a 10mm cube'', ClickGenerate, Respond cube_ext,
                        SetPrompt ''make it taller''] (mounted, []))"

text \<open>One model generated, moved to x = 5, and a second model generated.\<close>

definition regenerated :: state where
  "regenerated = fst (run [SetPrompt ''a 10mm cube'', ClickGenerate, Respond cube_ext,
                           UpdatePosition X 5,
                           SetPrompt ''a sphere'', ClickGenerate, Respond cube_ext]
                          (mounted, []))"

text \<open>One model generated, then a refinement attempt answered with HTTP 500.\<close>

definition failed_refinement :: state where
  "failed_refinement = fst (run [SetPrompt ''a 10mm cube'', ClickGenerate, Respond cube_ext,
      SetPrompt ''make it taller'', ClickGenerate, Respond bad_prompt_ext] (mounted, []))"

section \<open>Invariants\<close>

text \<open>Every stored scale component and every scale component applied to a mesh is at
  least 0.1.\<close>

definition at_least :: "real \<Rightarrow> vec3 \<Rightarrow> bool" where
  "at_least c p = (c \<le> vx p \<and> c \<le> vy p \<and> c \<le> vz p)"

definition scale_ok :: "state \<Rightarrow> bool" where
  "scale_ok s = (at_least 0.1 (scale s) \<and> list_all (\<lambda>m. at_least 0.1 (mesh_scale m)) (heap s))"

text \<open>The scene holds no generated mesh, or exactly the one \<open>meshRef\<close> refers to.\<close>

definition one_mesh :: "state \<Rightarrow> bool" where
  "one_mesh s =
     (sceneRef s = None \<or> sceneRef s = Some [] \<or>
      (meshRef s \<noteq> None \<and> sceneRef s = map_option (\<lambda>i. [i]) (meshRef s)))"

section \<open>Properties\<close>

lemmas handler_defs = handleGenerate_def handleGenerate_start_def handleGenerate_finish_def
  request_body_def catch_block_def finally_block_def clear_previous_mesh_def install_mesh_def
  center_geometry_def fit_camera_def new_mesh_def update_mesh_def truthy_def truthy_opt_def
  trim_def is_space_def setFromPoints_def translate_def vec_def
  updatePosition_def updateScale_def updateRotation_def resetTransforms_def
  mounted_def initial_def init_scene_def Let_def

subsection \<open>Prompt validation\<close>

lemma all_dropWhile: "(\<forall>x\<in>set (dropWhile P xs). P x) \<longleftrightarrow> (\<forall>x\<in>set xs. P x)"
  by (induction xs) auto

lemma trim_empty_iff: "trim p = [] \<longleftrightarrow> (\<forall>c\<in>set p. is_space c)"
  by (simp add: trim_def all_dropWhile)

lemma start_blank:
  "trim (prompt s) = [] \<Longrightarrow>
   handleGenerate_start s = (s\<lparr>error := Some ''Please enter a description''\<rparr>, [])"
  by (simp add: handleGenerate_start_def truthy_def)

lemma start_nonblank:
  "trim (prompt s) \<noteq> [] \<Longrightarrow>
   handleGenerate_start s =
     (s\<lparr>loading := True, error := None, generatedCode := []\<rparr>, [request_body s])"
  by (simp add: handleGenerate_start_def truthy_def)

text \<open>
  Claim C7. A prompt is blank after trimming exactly when all its characters are white
  space. For a blank prompt the call issues no request, sets the inline message and
  changes nothing else; for any other prompt it issues exactly one request, carrying
  the prompt.
\<close>

theorem empty_prompt_validation:
  "(trim (prompt s) = [] \<longleftrightarrow> (\<forall>c\<in>set (prompt s). is_space c)) \<and>
   (trim (prompt s) = [] \<longrightarrow>
      handleGenerate e s = (s\<lparr>error := Some ''Please enter a description''\<rparr>, [])) \<and>
   (trim (prompt s) \<noteq> [] \<longrightarrow>
      (\<exists>r. snd (handleGenerate e s) = [r] \<and> req_prompt r = prompt s))"
  by (simp add: trim_empty_iff [symmetric] handleGenerate_def start_blank start_nonblank
      request_body_def Let_def)

theorem empty_prompt_validation_witness:
  "trim (prompt (mounted\<lparr>prompt := ''  ''\<rparr>)) = [] \<and>
   handleGenerate cube_ext (mounted\<lparr>prompt := ''  ''\<rparr>) =
     (mounted\<lparr>prompt := ''  '', error := Some ''Please enter a description''\<rparr>, []) \<and>
   trim (prompt (mounted\<lparr>prompt := ''a cube''\<rparr>)) \<noteq> [] \<and>
   (\<exists>r. snd (handleGenerate cube_ext (mounted\<lparr>prompt := ''a cube''\<rparr>)) = [r] \<and>
        req_prompt r = ''a cube'')"
  using empty_prompt_validation [of "mounted\<lparr>prompt := ''  ''\<rparr>" cube_ext]
    empty_prompt_validation [of "mounted\<lparr>prompt := ''a cube''\<rparr>" cube_ext]
  by (simp add: trim_def is_space_def)

subsection \<open>Failed generation: non-success response\<close>

lemma finish_http_error:
  "fetch_res e = Inr r \<Longrightarrow> \<not> ok r \<Longrightarrow>
   handleGenerate_finish e t = t\<lparr>error := Some (body_text r), loading := False\<rparr>"
  by (simp add: handleGenerate_finish_def catch_block_def finally_block_def)

text \<open>
  Claim C1 (as amended). When the response is not a success, the error message is exactly
  the response body and the in-flight flag is cleared. The active mesh, the scene, the
  stored payload and the prompt are as before the call; \<open>generatedCode\<close> is the
  empty string, because every attempt that passes validation clears it before the
  request. The continuation by itself, resumed in any state \<open>t\<close>, changes only the
  error message and the in-flight flag.
\<close>

theorem http_error_keeps_mesh:
  assumes "trim (prompt s) \<noteq> []" and "fetch_res e = Inr r" and "\<not> ok r"
  shows "handleGenerate e s =
           (s\<lparr>generatedCode := [], error := Some (body_text r), loading := False\<rparr>,
            [request_body s]) \<and>
         handleGenerate_finish e t = t\<lparr>error := Some (body_text r), loading := False\<rparr>"
  using assms by (simp add: handleGenerate_def start_nonblank finish_http_error)

theorem http_error_keeps_mesh_witness:
  "trim (prompt refining) \<noteq> [] \<and>
   fetch_res bad_prompt_ext = Inr \<lparr>ok = False, body_text = ''bad prompt''\<rparr> \<and>
   \<not> ok \<lparr>ok = False, body_text = ''bad prompt''\<rparr> \<and>
   handleGenerate bad_prompt_ext refining =
     (refining\<lparr>generatedCode := [], error := Some ''bad prompt'', loading := False\<rparr>,
      [\<lparr>req_prompt = ''make it taller'', current_stl_data = Some ''c29saWQ='',
        current_code = Some ''cube(10);''\<rparr>])"
proof -
  have p: "trim (prompt refining) \<noteq> []"
    by (simp add: refining_def handler_defs cube_ext_def)
  have f: "fetch_res bad_prompt_ext = Inr \<lparr>ok = False, body_text = ''bad prompt''\<rparr>"
    by (simp add: bad_prompt_ext_def)
  have r: "request_body refining = \<lparr>req_prompt = ''make it taller'',
      current_stl_data = Some ''c29saWQ='', current_code = Some ''cube(10);''\<rparr>"
    by (simp add: refining_def handler_defs cube_ext_def)
  show ?thesis
    using http_error_keeps_mesh [OF p f, of refining] p f r by simp
qed

text \<open>
  Claim C1 as stated fails: after one successful generation, a refinement attempt
  answered with HTTP 500 leaves \<open>generatedCode\<close> empty instead of \<open>cube(10);\<close>.
\<close>

theorem http_error_clears_code:
  "fetch_res bad_prompt_ext = Inr \<lparr>ok = False, body_text = ''bad prompt''\<rparr> \<and>
   generatedCode refining = ''cube(10);'' \<and>
   generatedCode (fst (handleGenerate bad_prompt_ext refining)) = []"
  by (simp add: refining_def handler_defs cube_ext_def bad_prompt_ext_def)

subsection \<open>Failed generation: malformed payload\<close>

lemma clear_previous_mesh_frame:
  "meshRef (clear_previous_mesh s) = meshRef s \<and>
   length (heap (clear_previous_mesh s)) = length (heap s) \<and>
   prompt (clear_previous_mesh s) = prompt s \<and>
   (case sceneRef s of None \<Rightarrow> sceneRef (clear_previous_mesh s) = None
    | Some ch \<Rightarrow> \<exists>ch'. sceneRef (clear_previous_mesh s) = Some ch' \<and> set ch' \<subseteq> set ch)"
  by (auto simp: clear_previous_mesh_def update_mesh_def split: option.splits dest: set_remove1_subset [THEN subsetD])

text \<open>
  Claim C2 (as amended). When the response is a success but \<open>atob\<close> or the STL parse
  throws, the error message is the message of the thrown error (\<open>Unknown error\<close> when
  the thrown value is no \<open>Error\<close>), the in-flight flag is cleared, the prompt is kept,
  and no new mesh is installed: \<open>meshRef\<close> is unchanged, no mesh object is created
  and the scene gains no child. When it is \<open>atob\<close> that throws, the whole state is as
  before the call except for the error message, the in-flight flag and
  \<open>generatedCode\<close>, which is the empty string.
\<close>

theorem decode_failure_installs_no_mesh:
  assumes "trim (prompt s) \<noteq> []" and "fetch_res e = Inr r" and "ok r"
    and "json_res e = Inr d"
    and "atob_res e = Inl err \<or> (\<exists>b. atob_res e = Inr b \<and> parse_res e = Inl err)"
  shows "let s' = fst (handleGenerate e s);
             message = (case err of JsError m \<Rightarrow> m | OtherThrown \<Rightarrow> ''Unknown error'')
         in error s' = Some message \<and> loading s' = False \<and> prompt s' = prompt s \<and>
            meshRef s' = meshRef s \<and> length (heap s') = length (heap s) \<and>
            (case sceneRef s of None \<Rightarrow> sceneRef s' = None
             | Some ch \<Rightarrow> \<exists>ch'. sceneRef s' = Some ch' \<and> set ch' \<subseteq> set ch) \<and>
            (atob_res e = Inl err \<longrightarrow>
               s' = s\<lparr>generatedCode := [], error := Some message, loading := False\<rparr>)"
proof -
  let ?s1 = "s\<lparr>loading := True, error := None, generatedCode := []\<rparr>"
  have hg: "fst (handleGenerate e s) = handleGenerate_finish e ?s1"
    using assms(1) by (simp add: handleGenerate_def start_nonblank)
  from assms(5) show ?thesis
  proof
    assume a: "atob_res e = Inl err"
    then show ?thesis
      using assms(2-4) unfolding hg
      by (simp add: handleGenerate_finish_def catch_block_def finally_block_def Let_def
          split: option.splits)
  next
    assume "\<exists>b. atob_res e = Inr b \<and> parse_res e = Inl err"
    then obtain b where b: "atob_res e = Inr b" "parse_res e = Inl err" by blast
    let ?s2 = "?s1\<lparr>generatedCode := openscad_code d, currentStlData := Some (stl_data d)\<rparr>"
    have fin: "handleGenerate_finish e ?s1 = catch_block err (clear_previous_mesh ?s2)"
      using assms(2-4) b by (simp add: handleGenerate_finish_def Let_def)
    show ?thesis
      unfolding hg fin using b clear_previous_mesh_frame [of ?s2]
      by (simp add: catch_block_def finally_block_def Let_def split: option.splits)
  qed
qed

theorem decode_failure_installs_no_mesh_witness:
  "trim (prompt refining) \<noteq> [] \<and>
   fetch_res bad_base64_ext = Inr \<lparr>ok = True, body_text = []\<rparr> \<and>
   ok \<lparr>ok = True, body_text = []\<rparr> \<and>
   json_res bad_base64_ext = Inr \<lparr>stl_data = ''%%%'', openscad_code = ''cube(10);''\<rparr> \<and>
   atob_res bad_base64_ext =
     Inl (JsError ''The string to be decoded is not correctly encoded.'') \<and>
   fst (handleGenerate bad_base64_ext refining) =
     refining\<lparr>generatedCode := [],
       error := Some ''The string to be decoded is not correctly encoded.'',
       loading := False\<rparr> \<and>
   fetch_res bad_stl_ext = Inr \<lparr>ok = True, body_text = []\<rparr> \<and>
   json_res bad_stl_ext = Inr \<lparr>stl_data = ''AAAA'', openscad_code = ''cube(1);''\<rparr> \<and>
   atob_res bad_stl_ext = Inr [CHR 0x00, CHR 0x00, CHR 0x00] \<and>
   parse_res bad_stl_ext = Inl (JsError ''Offset is outside the bounds of the DataView'') \<and>
   error (fst (handleGenerate bad_stl_ext refining)) =
     Some ''Offset is outside the bounds of the DataView'' \<and>
   meshRef (fst (handleGenerate bad_stl_ext refining)) = meshRef refining \<and>
   length (heap (fst (handleGenerate bad_stl_ext refining))) = length (heap refining) \<and>
   prompt (fst (handleGenerate bad_stl_ext refining)) = ''make it taller''"
proof -
  have p: "trim (prompt refining) \<noteq> []" and q: "prompt refining = ''make it taller''"
    by (simp_all add: refining_def handler_defs cube_ext_def)
  have f: "fetch_res bad_base64_ext = Inr \<lparr>ok = True, body_text = []\<rparr>"
    and j: "json_res bad_base64_ext = Inr \<lparr>stl_data = ''%%%'', openscad_code = ''cube(10);''\<rparr>"
    and a: "atob_res bad_base64_ext =
              Inl (JsError ''The string to be decoded is not correctly encoded.'')"
    by (simp_all add: bad_base64_ext_def)
  have f': "fetch_res bad_stl_ext = Inr \<lparr>ok = True, body_text = []\<rparr>"
    and j': "json_res bad_stl_ext = Inr \<lparr>stl_data = ''AAAA'', openscad_code = ''cube(1);''\<rparr>"
    and a': "atob_res bad_stl_ext = Inr [CHR 0x00, CHR 0x00, CHR 0x00]"
    and x': "parse_res bad_stl_ext = Inl (JsError ''Offset is outside the bounds of the DataView'')"
    by (simp_all add: bad_stl_ext_def)
  have k: "ok \<lparr>ok = True, body_text = []\<rparr>" by simp
  have d': "atob_res bad_stl_ext =
              Inl (JsError ''Offset is outside the bounds of the DataView'') \<or>
            (\<exists>b. atob_res bad_stl_ext = Inr b \<and>
                 parse_res bad_stl_ext =
                   Inl (JsError ''Offset is outside the bounds of the DataView''))"
    using a' x' by simp
  show ?thesis
    using decode_failure_installs_no_mesh [OF p f k j disjI1 [OF a]]
      decode_failure_installs_no_mesh [OF p f' k j' d'] p q f j a f' j' a' x'
    by (simp add: Let_def)
qed

text \<open>
  Claim C2 as stated fails: after one successful generation, an attempt whose payload is
  not base64 leaves \<open>generatedCode\<close> empty instead of \<open>cube(10);\<close>, and the message shown
  is the one \<open>atob\<close> threw.
\<close>

theorem decode_failure_clears_code:
  "atob_res bad_base64_ext =
     Inl (JsError ''The string to be decoded is not correctly encoded.'') \<and>
   generatedCode refining = ''cube(10);'' \<and>
   generatedCode (fst (handleGenerate bad_base64_ext refining)) = [] \<and>
   error (fst (handleGenerate bad_base64_ext refining)) =
     Some ''The string to be decoded is not correctly encoded.''"
  by (simp add: refining_def handler_defs cube_ext_def bad_base64_ext_def)

text \<open>
  What the page does when it is the STL parse that throws: by then the session fields
  hold the new values and the previous mesh has left the scene and lost its geometry
  and material, while \<open>meshRef\<close> still refers to it.
\<close>

lemma parse_failure_disposes_previous_mesh:
  "sceneRef refining = Some [0] \<and> \<not> geometry_disposed (heap refining ! 0) \<and>
   sceneRef (fst (handleGenerate bad_stl_ext refining)) = Some [] \<and>
   meshRef (fst (handleGenerate bad_stl_ext refining)) = Some 0 \<and>
   geometry_disposed (heap (fst (handleGenerate bad_stl_ext refining)) ! 0) \<and>
   material_disposed (heap (fst (handleGenerate bad_stl_ext refining)) ! 0) \<and>
   generatedCode (fst (handleGenerate bad_stl_ext refining)) = ''cube(1);'' \<and>
   currentStlData (fst (handleGenerate bad_stl_ext refining)) = Some ''AAAA''"
  by (simp add: refining_def handler_defs cube_ext_def bad_stl_ext_def)

subsection \<open>Session fields and the refinement request\<close>

lemma run_invariant:
  assumes "P (fst c)" and "\<And>ev s p. P s \<Longrightarrow> P (fst (step ev (s, p)))"
  shows "P (fst (run evs c))"
  using assms(1)
proof (induction evs arbitrary: c)
  case Nil
  then show ?case by simp
next
  case (Cons ev evs)
  obtain s p where c: "c = (s, p)" by (cases c)
  with Cons.prems have "P (fst (step ev c))" by (simp add: assms(2))
  then show ?case using Cons.IH by simp
qed

lemma clear_previous_mesh_session:
  "generatedCode (clear_previous_mesh s) = generatedCode s"
  "currentStlData (clear_previous_mesh s) = currentStlData s"
  by (simp_all add: clear_previous_mesh_def split: option.splits)

lemma install_mesh_session:
  "generatedCode (install_mesh g s) = generatedCode s"
  "currentStlData (install_mesh g s) = currentStlData s"
  by (simp_all add: install_mesh_def Let_def split: option.splits bool.splits)

lemma catch_block_session:
  "generatedCode (catch_block err s) = generatedCode s"
  "currentStlData (catch_block err s) = currentStlData s"
  by (simp_all add: catch_block_def finally_block_def)

lemma transform_session:
  "generatedCode (updatePosition a v s) = generatedCode s"
  "currentStlData (updatePosition a v s) = currentStlData s"
  "generatedCode (updateScale a v s) = generatedCode s"
  "currentStlData (updateScale a v s) = currentStlData s"
  "generatedCode (updateRotation a v s) = generatedCode s"
  "currentStlData (updateRotation a v s) = currentStlData s"
  "generatedCode (resetTransforms s) = generatedCode s"
  "currentStlData (resetTransforms s) = currentStlData s"
  by (simp_all add: updatePosition_def updateScale_def updateRotation_def resetTransforms_def
      Let_def split: option.splits)

lemma finish_code_has_payload:
  assumes "generatedCode s \<noteq> [] \<longrightarrow> currentStlData s \<noteq> None"
  shows "generatedCode (handleGenerate_finish e s) \<noteq> [] \<longrightarrow>
         currentStlData (handleGenerate_finish e s) \<noteq> None"
  using assms
  by (simp add: handleGenerate_finish_def Let_def clear_previous_mesh_session
      install_mesh_session catch_block_session finally_block_def split: sum.splits)

lemma start_code_has_payload:
  assumes "generatedCode s \<noteq> [] \<longrightarrow> currentStlData s \<noteq> None"
  shows "generatedCode (fst (handleGenerate_start s)) \<noteq> [] \<longrightarrow>
         currentStlData (fst (handleGenerate_start s)) \<noteq> None"
  using assms by (simp add: handleGenerate_start_def)

lemma fst_issue: "fst (issue c p) = fst c"
  by (cases c) simp

lemma step_code_has_payload:
  assumes "generatedCode s \<noteq> [] \<longrightarrow> currentStlData s \<noteq> None"
  shows "generatedCode (fst (step ev (s, p))) \<noteq> [] \<longrightarrow>
         currentStlData (fst (step ev (s, p))) \<noteq> None"
proof (cases ev)
  case (Respond e)
  then show ?thesis using assms finish_code_has_payload [OF assms] by (simp split: list.splits)
next
  case ToggleTheme
  then show ?thesis using assms by (simp add: init_scene_def)
qed (use assms start_code_has_payload [OF assms] in \<open>simp_all add: fst_issue transform_session\<close>)

lemma finish_success:
  assumes "fetch_res e = Inr r" "ok r" "json_res e = Inr d" "atob_res e = Inr b"
    "parse_res e = Inr g"
  shows "handleGenerate_finish e t =
     finally_block (install_mesh g (clear_previous_mesh
       (t\<lparr>generatedCode := openscad_code d, currentStlData := Some (stl_data d)\<rparr>)))"
  using assms by (simp add: handleGenerate_finish_def Let_def)

text \<open>
  Claim C5 (as amended). The request body carries \<open>current_code\<close> and
  \<open>current_stl_data\<close> exactly when both stored fields are non-empty at the time of the
  request, and then carries their values; it is the body of the one request a call
  issues. A generation that succeeds stores both fields together. In every state the
  page can reach, a non-empty \<open>generatedCode\<close> comes with a stored payload; the converse
  does not hold.
\<close>

theorem refinement_fields_when_both_present:
  "(current_code (request_body s) \<noteq> None \<longleftrightarrow>
      truthy_opt (currentStlData s) \<and> truthy (generatedCode s)) \<and>
   (current_stl_data (request_body s) \<noteq> None \<longleftrightarrow>
      truthy_opt (currentStlData s) \<and> truthy (generatedCode s)) \<and>
   (truthy_opt (currentStlData s) \<and> truthy (generatedCode s) \<longrightarrow>
      current_code (request_body s) = Some (generatedCode s) \<and>
      current_stl_data (request_body s) = currentStlData s) \<and>
   (trim (prompt s) \<noteq> [] \<longrightarrow> snd (handleGenerate_start s) = [request_body s] \<and>
      snd (handleGenerate e s) = [request_body s]) \<and>
   (fetch_res e = Inr r \<and> ok r \<and> json_res e = Inr d \<and> atob_res e = Inr b \<and>
    parse_res e = Inr g \<longrightarrow>
      generatedCode (handleGenerate_finish e s) = openscad_code d \<and>
      currentStlData (handleGenerate_finish e s) = Some (stl_data d)) \<and>
   (generatedCode (fst (run evs (mounted, []))) \<noteq> [] \<longrightarrow>
      currentStlData (fst (run evs (mounted, []))) \<noteq> None)"
proof -
  have inv: "generatedCode (fst (run evs (mounted, []))) \<noteq> [] \<longrightarrow>
      currentStlData (fst (run evs (mounted, []))) \<noteq> None"
    by (rule run_invariant [where P = "\<lambda>s. generatedCode s \<noteq> [] \<longrightarrow> currentStlData s \<noteq> None"])
      (simp_all add: step_code_has_payload mounted_def initial_def init_scene_def)
  have req: "(current_code (request_body s) \<noteq> None \<longleftrightarrow>
      truthy_opt (currentStlData s) \<and> truthy (generatedCode s)) \<and>
   (current_stl_data (request_body s) \<noteq> None \<longleftrightarrow>
      truthy_opt (currentStlData s) \<and> truthy (generatedCode s)) \<and>
   (truthy_opt (currentStlData s) \<and> truthy (generatedCode s) \<longrightarrow>
      current_code (request_body s) = Some (generatedCode s) \<and>
      current_stl_data (request_body s) = currentStlData s)"
    by (auto simp: request_body_def Let_def truthy_opt_def split: option.splits)
  have iss: "trim (prompt s) \<noteq> [] \<longrightarrow> snd (handleGenerate_start s) = [request_body s] \<and>
      snd (handleGenerate e s) = [request_body s]"
    by (simp add: handleGenerate_def start_nonblank)
  have suc: "fetch_res e = Inr r \<and> ok r \<and> json_res e = Inr d \<and> atob_res e = Inr b \<and>
    parse_res e = Inr g \<longrightarrow>
      generatedCode (handleGenerate_finish e s) = openscad_code d \<and>
      currentStlData (handleGenerate_finish e s) = Some (stl_data d)"
    by (simp add: finish_success finally_block_def install_mesh_session
        clear_previous_mesh_session)
  from req iss suc inv show ?thesis by blast
qed

theorem refinement_fields_when_both_present_witness:
  "truthy_opt (currentStlData refining) \<and> truthy (generatedCode refining) \<and>
   current_code (request_body refining) = Some ''cube(10);'' \<and>
   current_stl_data (request_body refining) = Some ''c29saWQ='' \<and>
   trim (prompt refining) \<noteq> [] \<and>
   snd (handleGenerate cube_ext refining) = [request_body refining] \<and>
   fetch_res cube_ext = Inr \<lparr>ok = True, body_text = []\<rparr> \<and>
   ok \<lparr>ok = True, body_text = []\<rparr> \<and>
   json_res cube_ext = Inr \<lparr>stl_data = ''c29saWQ='', openscad_code = ''cube(10);''\<rparr> \<and>
   atob_res cube_ext = Inr ''solid'' \<and>
   parse_res cube_ext = Inr [vec 0 0 0, vec 10 0 0, vec 0 10 0] \<and>
   generatedCode (handleGenerate_finish cube_ext refining) = ''cube(10);'' \<and>
   currentStlData (handleGenerate_finish cube_ext refining) = Some ''c29saWQ='' \<and>
   generatedCode (fst (run [SetPrompt ''a 10mm cube'', ClickGenerate, Respond cube_ext]
                        (mounted, []))) \<noteq> [] \<and>
   currentStlData (fst (run [SetPrompt ''a 10mm cube'', ClickGenerate, Respond cube_ext]
                        (mounted, []))) \<noteq> None"
proof -
  have st: "truthy_opt (currentStlData refining)" "truthy (generatedCode refining)"
    "trim (prompt refining) \<noteq> []" "generatedCode refining = ''cube(10);''"
    "currentStlData refining = Some ''c29saWQ=''"
    by (simp_all add: refining_def handler_defs cube_ext_def)
  have ex: "fetch_res cube_ext = Inr \<lparr>ok = True, body_text = []\<rparr>"
    "json_res cube_ext = Inr \<lparr>stl_data = ''c29saWQ='', openscad_code = ''cube(10);''\<rparr>"
    "atob_res cube_ext = Inr ''solid''"
    "parse_res cube_ext = Inr [vec 0 0 0, vec 10 0 0, vec 0 10 0]"
    by (simp_all add: cube_ext_def)
  have rn: "generatedCode (fst (run [SetPrompt ''a 10mm cube'', ClickGenerate, Respond cube_ext]
                        (mounted, []))) \<noteq> []"
    by (simp add: handler_defs cube_ext_def)
  show ?thesis
    using refinement_fields_when_both_present [of refining cube_ext
        "\<lparr>ok = True, body_text = []\<rparr>"
        "\<lparr>stl_data = ''c29saWQ='', openscad_code = ''cube(10);''\<rparr>" "''solid''"
        "[vec 0 0 0, vec 10 0 0, vec 0 10 0]"
        "[SetPrompt ''a 10mm cube'', ClickGenerate, Respond cube_ext]"]
      st ex rn
    by simp
qed

text \<open>
  Claim C5 as stated fails: after a successful generation and a refinement attempt
  answered with HTTP 500, the payload is stored and \<open>generatedCode\<close> is empty.
\<close>

theorem code_absent_payload_present:
  "currentStlData failed_refinement = Some ''c29saWQ='' \<and> generatedCode failed_refinement = []"
  by (simp add: failed_refinement_def handler_defs cube_ext_def bad_prompt_ext_def)

subsection \<open>Camera fit\<close>

lemma fold_expand_ordered:
  assumes "fold expandByPoint ps (Some (lo, hi)) = Some (lo', hi')"
    and "vx lo \<le> vx hi" "vy lo \<le> vy hi" "vz lo \<le> vz hi"
  shows "vx lo' \<le> vx hi' \<and> vy lo' \<le> vy hi' \<and> vz lo' \<le> vz hi'"
  using assms
proof (induction ps arbitrary: lo hi)
  case Nil
  then show ?case by simp
next
  case (Cons p ps)
  show ?case
    by (rule Cons.IH [of "vec (min (vx lo) (vx p)) (min (vy lo) (vy p)) (min (vz lo) (vz p))"
          "vec (max (vx hi) (vx p)) (max (vy hi) (vy p)) (max (vz hi) (vz p))"])
      (use Cons.prems in \<open>simp_all add: vec_def min_def max_def\<close>)
qed

lemma getSize_nonneg:
  "0 \<le> vx (getSize (setFromPoints ps)) \<and> 0 \<le> vy (getSize (setFromPoints ps)) \<and>
   0 \<le> vz (getSize (setFromPoints ps))"
proof (cases ps)
  case Nil
  then show ?thesis by (simp add: setFromPoints_def vec_def)
next
  case (Cons p qs)
  then have f: "setFromPoints ps = fold expandByPoint qs (Some (p, p))"
    by (simp add: setFromPoints_def)
  show ?thesis
  proof (cases "setFromPoints ps")
    case None
    then show ?thesis by (simp add: vec_def)
  next
    case (Some b)
    obtain lo hi where b: "b = (lo, hi)" by (cases b)
    from fold_expand_ordered [of qs p p lo hi] Some f b
    show ?thesis by (simp add: vec_def)
  qed
qed

lemma fit_camera_formula:
  assumes "0 < fov cam" and "fov cam < 180"
  shows "fit_camera cam m =
     (let size = getSize (setFromPoints (geometry m));
          maxDim = max (max (vx size) (vy size)) (vz size);
          dist = (maxDim / 2) / tan ((fov cam * (pi / 180)) / 2) * 1.5
      in cam\<lparr>cam_position := vec dist dist dist, cam_target := vec 0 0 0\<rparr>)"
proof -
  let ?size = "getSize (setFromPoints (geometry m))"
  let ?maxDim = "max (max (vx ?size) (vy ?size)) (vz ?size)"
  let ?t = "tan ((fov cam * (pi / 180)) / 2)"
  have "0 \<le> ?maxDim" using getSize_nonneg [of "geometry m"] by (simp add: max_def)
  then have n: "0 \<le> ?maxDim / 2" by simp
  have t: "0 < ?t"
  proof (rule tan_gt_zero)
    show "0 < fov cam * (pi / 180) / 2" using assms(1) by simp
    have "fov cam * pi < 180 * pi" using assms(2) by simp
    then show "fov cam * (pi / 180) / 2 < pi / 2" by simp
  qed
  have "0 \<le> ?maxDim / 2 / ?t" using n t by (rule divide_nonneg_pos)
  then have eq: "\<bar>?maxDim / 2 / ?t\<bar> = ?maxDim / 2 / ?t" by (rule abs_of_nonneg)
  show ?thesis unfolding fit_camera_def Let_def eq by (rule refl)
qed

lemma install_mesh_camera:
  assumes "sceneRef s \<noteq> None" "cameraRef s = Some cam" "controlsRef s"
  shows "meshRef (install_mesh g s) = Some (length (heap s)) \<and>
         length (heap (install_mesh g s)) = Suc (length (heap s)) \<and>
         cameraRef (install_mesh g s) =
           Some (fit_camera cam (heap (install_mesh g s) ! length (heap s)))"
  using assms by (auto simp: install_mesh_def Let_def)

lemma clear_previous_mesh_camera:
  "cameraRef (clear_previous_mesh s) = cameraRef s"
  "controlsRef (clear_previous_mesh s) = controlsRef s"
  "sceneRef s = Some ch \<Longrightarrow> \<exists>ch'. sceneRef (clear_previous_mesh s) = Some ch'"
  by (auto simp: clear_previous_mesh_def split: option.splits)

text \<open>
  Claim C8 (as amended). For a camera whose field of view lies between 0 and 180 degrees
  (the page's camera has 75) and every mesh, the camera fit puts all three camera
  coordinates at \<open>(maxDim / 2) / tan (fov / 2) * 1.5\<close>, with \<open>maxDim\<close> the largest
  dimension of the mesh's bounding box and \<open>fov\<close> in radians, and points the camera at
  the origin; a successful generation applies this fit to the mesh it installs. For a
  bounding box of size (0, 0, 0) the distance is 0: the camera is put at the origin.
\<close>

theorem camera_fit_distance:
  assumes "0 < fov cam" and "fov cam < 180"
  shows "(let size = getSize (setFromPoints (geometry m));
              maxDim = max (max (vx size) (vy size)) (vz size);
              dist = (maxDim / 2) / tan ((fov cam * (pi / 180)) / 2) * 1.5
          in fit_camera cam m = cam\<lparr>cam_position := vec dist dist dist,
                                     cam_target := vec 0 0 0\<rparr> \<and>
             (size = vec 0 0 0 \<longrightarrow> dist = 0)) \<and>
         (trim (prompt s) \<noteq> [] \<and> fetch_res e = Inr r \<and> ok r \<and> json_res e = Inr d \<and>
          atob_res e = Inr b \<and> parse_res e = Inr g \<and>
          sceneRef s \<noteq> None \<and> cameraRef s = Some cam \<and> controlsRef s \<longrightarrow>
          (let s' = fst (handleGenerate e s)
           in \<exists>i. meshRef s' = Some i \<and> i < length (heap s') \<and>
                  cameraRef s' = Some (fit_camera cam (heap s' ! i))))"
proof (intro conjI impI)
  show "let size = getSize (setFromPoints (geometry m));
              maxDim = max (max (vx size) (vy size)) (vz size);
              dist = (maxDim / 2) / tan ((fov cam * (pi / 180)) / 2) * 1.5
          in fit_camera cam m = cam\<lparr>cam_position := vec dist dist dist,
                                     cam_target := vec 0 0 0\<rparr> \<and>
             (size = vec 0 0 0 \<longrightarrow> dist = 0)"
    using fit_camera_formula [OF assms, of m] by (simp add: Let_def vec_def)
next
  assume a: "trim (prompt s) \<noteq> [] \<and> fetch_res e = Inr r \<and> ok r \<and> json_res e = Inr d \<and>
          atob_res e = Inr b \<and> parse_res e = Inr g \<and>
          sceneRef s \<noteq> None \<and> cameraRef s = Some cam \<and> controlsRef s"
  let ?s1 = "s\<lparr>loading := True, error := None, generatedCode := []\<rparr>"
  let ?s2 = "clear_previous_mesh
       (?s1\<lparr>generatedCode := openscad_code d, currentStlData := Some (stl_data d)\<rparr>)"
  have hg: "fst (handleGenerate e s) = finally_block (install_mesh g ?s2)"
    using a by (simp add: handleGenerate_def start_nonblank finish_success)
  from a obtain ch where "sceneRef s = Some ch" by blast
  then have "\<exists>ch'. sceneRef ?s2 = Some ch'"
    by (intro clear_previous_mesh_camera(3) [of _ ch]) simp
  then have pre: "sceneRef ?s2 \<noteq> None" "cameraRef ?s2 = Some cam" "controlsRef ?s2"
    using a by (simp_all add: clear_previous_mesh_camera(1,2))
  show "let s' = fst (handleGenerate e s)
           in \<exists>i. meshRef s' = Some i \<and> i < length (heap s') \<and>
                  cameraRef s' = Some (fit_camera cam (heap s' ! i))"
    unfolding hg Let_def using install_mesh_camera [OF pre, of g]
    by (simp add: finally_block_def)
qed

theorem camera_fit_distance_witness:
  "0 < fov \<lparr>fov = 75, cam_position = vec 30 30 30, cam_target = vec 0 0 0\<rparr> \<and>
   fov \<lparr>fov = 75, cam_position = vec 30 30 30, cam_target = vec 0 0 0\<rparr> < 180 \<and>
   getSize (setFromPoints (geometry (new_mesh [vec 0 0 0, vec 0 0 0, vec 0 0 0]))) = vec 0 0 0 \<and>
   fit_camera \<lparr>fov = 75, cam_position = vec 30 30 30, cam_target = vec 0 0 0\<rparr>
       (new_mesh [vec 0 0 0, vec 0 0 0, vec 0 0 0]) =
     \<lparr>fov = 75, cam_position = vec 0 0 0, cam_target = vec 0 0 0\<rparr> \<and>
   trim (prompt (mounted\<lparr>prompt := ''a cube''\<rparr>)) \<noteq> [] \<and>
   fetch_res cube_ext = Inr \<lparr>ok = True, body_text = []\<rparr> \<and>
   ok \<lparr>ok = True, body_text = []\<rparr> \<and>
   json_res cube_ext = Inr \<lparr>stl_data = ''c29saWQ='', openscad_code = ''cube(10);''\<rparr> \<and>
   atob_res cube_ext = Inr ''solid'' \<and>
   parse_res cube_ext = Inr [vec 0 0 0, vec 10 0 0, vec 0 10 0] \<and>
   sceneRef (mounted\<lparr>prompt := ''a cube''\<rparr>) \<noteq> None \<and>
   cameraRef (mounted\<lparr>prompt := ''a cube''\<rparr>) =
     Some \<lparr>fov = 75, cam_position = vec 30 30 30, cam_target = vec 0 0 0\<rparr> \<and>
   controlsRef (mounted\<lparr>prompt := ''a cube''\<rparr>) \<and>
   (let s' = fst (handleGenerate cube_ext (mounted\<lparr>prompt := ''a cube''\<rparr>))
    in \<exists>i. meshRef s' = Some i \<and> i < length (heap s') \<and>
           cameraRef s' =
             Some (fit_camera \<lparr>fov = 75, cam_position = vec 30 30 30, cam_target = vec 0 0 0\<rparr>
                     (heap s' ! i)))"
proof -
  let ?cam = "\<lparr>fov = 75, cam_position = vec 30 30 30, cam_target = vec 0 0 0\<rparr>"
  let ?s = "mounted\<lparr>prompt := ''a cube''\<rparr>"
  have c: "0 < fov ?cam" "fov ?cam < 180" by simp_all
  have z: "getSize (setFromPoints (geometry (new_mesh [vec 0 0 0, vec 0 0 0, vec 0 0 0]))) =
             vec 0 0 0"
    by (simp add: new_mesh_def setFromPoints_def vec_def)
  have st: "trim (prompt ?s) \<noteq> []" "sceneRef ?s \<noteq> None" "cameraRef ?s = Some ?cam"
    "controlsRef ?s"
    by (simp_all add: mounted_def initial_def init_scene_def trim_def is_space_def)
  have ex: "fetch_res cube_ext = Inr \<lparr>ok = True, body_text = []\<rparr>"
    "json_res cube_ext = Inr \<lparr>stl_data = ''c29saWQ='', openscad_code = ''cube(10);''\<rparr>"
    "atob_res cube_ext = Inr ''solid''"
    "parse_res cube_ext = Inr [vec 0 0 0, vec 10 0 0, vec 0 10 0]"
    by (simp_all add: cube_ext_def)
  note t = camera_fit_distance [OF c, of "new_mesh [vec 0 0 0, vec 0 0 0, vec 0 0 0]"
      ?s cube_ext "\<lparr>ok = True, body_text = []\<rparr>"
      "\<lparr>stl_data = ''c29saWQ='', openscad_code = ''cube(10);''\<rparr>" "''solid''"
      "[vec 0 0 0, vec 10 0 0, vec 0 10 0]"]
  from t z have f: "fit_camera ?cam (new_mesh [vec 0 0 0, vec 0 0 0, vec 0 0 0]) =
      \<lparr>fov = 75, cam_position = vec 0 0 0, cam_target = vec 0 0 0\<rparr>"
    by (simp add: Let_def vec_def)
  from t st ex have g: "let s' = fst (handleGenerate cube_ext ?s)
    in \<exists>i. meshRef s' = Some i \<and> i < length (heap s') \<and>
           cameraRef s' = Some (fit_camera ?cam (heap s' ! i))"
    by simp
  from c z f st ex g show ?thesis by simp
qed

text \<open>
  Claim C8 as stated fails: for a mesh whose vertices all coincide, the camera ends at
  (0, 0, 0), which is the point it looks at. No minimum distance is substituted.
\<close>

theorem zero_size_camera_at_target:
  "getSize (setFromPoints [vec 1 2 3, vec 1 2 3, vec 1 2 3]) = vec 0 0 0 \<and>
   cameraRef (fst (run [SetPrompt ''a point'', ClickGenerate, Respond point_ext] (mounted, []))) =
     Some \<lparr>fov = 75, cam_position = vec 0 0 0, cam_target = vec 0 0 0\<rparr>"
  by (simp add: handler_defs point_ext_def)

subsection \<open>Transform handlers\<close>

lemma get_set_axis: "get_axis a (set_axis a v p) = v"
  by (cases a) simp_all

lemma get_set_axis_other: "b \<noteq> a \<Longrightarrow> get_axis b (set_axis a v p) = get_axis b p"
  by (cases a; cases b) simp_all

lemma get_axis_vec: "get_axis a (vec (vx p) (vy p) (vz p)) = get_axis a p"
  by (cases a) (simp_all add: vec_def)

lemma updateScale_stored: "scale (updateScale a v s) = set_axis a (max 0.1 v) (scale s)"
  by (simp add: updateScale_def Let_def split: option.splits)

lemma updateScale_applied:
  "meshRef s = Some i \<Longrightarrow> i < length (heap s) \<Longrightarrow>
   mesh_scale (heap (updateScale a v s) ! i) =
     vec (vx (scale (updateScale a v s))) (vy (scale (updateScale a v s)))
         (vz (scale (updateScale a v s)))"
  by (simp add: updateScale_def Let_def update_mesh_def)

lemma at_least_set_axis: "at_least c p \<Longrightarrow> c \<le> v \<Longrightarrow> at_least c (set_axis a v p)"
  by (cases a) (simp_all add: at_least_def)

lemma at_least_vec: "at_least c (vec a b d) \<longleftrightarrow> c \<le> a \<and> c \<le> b \<and> c \<le> d"
  by (simp add: at_least_def vec_def)

lemma at_least_copy: "at_least c (vec (vx p) (vy p) (vz p)) = at_least c p"
  by (simp add: at_least_def vec_def)

lemma update_mesh_all:
  assumes "list_all Q h" and "\<And>m. Q m \<Longrightarrow> Q (f m)"
  shows "list_all Q (update_mesh i f h)"
  using assms by (auto simp: update_mesh_def list_all_length nth_list_update)

lemma heap_scale_kept:
  assumes "scale_ok s" and "\<And>m. mesh_scale (f m) = mesh_scale m"
  shows "list_all (\<lambda>m. at_least 0.1 (mesh_scale m)) (update_mesh i f (heap s))"
  by (rule update_mesh_all) (use assms in \<open>simp_all add: scale_ok_def\<close>)

lemma heap_scale_set:
  assumes "scale_ok s" and "at_least 0.1 n"
  shows "list_all (\<lambda>m. at_least 0.1 (mesh_scale m))
           (update_mesh i (\<lambda>m. m\<lparr>mesh_scale := vec (vx n) (vy n) (vz n)\<rparr>) (heap s))"
  by (rule update_mesh_all) (use assms in \<open>simp_all add: scale_ok_def at_least_copy\<close>)

lemma updateScale_scale_ok:
  assumes "scale_ok s"
  shows "scale_ok (updateScale a v s)"
proof -
  let ?n = "set_axis a (max 0.1 v) (scale s)"
  have n: "at_least 0.1 ?n"
    using assms by (intro at_least_set_axis) (simp_all add: scale_ok_def)
  show ?thesis
  proof (cases "meshRef s")
    case None
    then show ?thesis using assms n by (simp add: updateScale_def Let_def scale_ok_def)
  next
    case (Some i)
    then show ?thesis using n heap_scale_set [OF assms n, of i]
      by (simp add: updateScale_def Let_def scale_ok_def)
  qed
qed

lemma updatePosition_scale_ok:
  assumes "scale_ok s"
  shows "scale_ok (updatePosition a v s)"
proof (cases "meshRef s")
  case None
  then show ?thesis using assms by (simp add: updatePosition_def Let_def scale_ok_def)
next
  case (Some i)
  let ?n = "set_axis a v (position s)"
  have "list_all (\<lambda>m. at_least 0.1 (mesh_scale m))
          (update_mesh i (\<lambda>m. m\<lparr>mesh_position := vec (vx ?n) (vy ?n) (vz ?n)\<rparr>) (heap s))"
    by (rule heap_scale_kept [OF assms]) simp
  then show ?thesis using Some assms by (simp add: updatePosition_def Let_def scale_ok_def)
qed

lemma updateRotation_scale_ok:
  assumes "scale_ok s"
  shows "scale_ok (updateRotation a v s)"
proof (cases "meshRef s")
  case None
  then show ?thesis using assms by (simp add: updateRotation_def Let_def scale_ok_def)
next
  case (Some i)
  let ?n = "set_axis a v (rotation s)"
  have "list_all (\<lambda>m. at_least 0.1 (mesh_scale m))
          (update_mesh i (\<lambda>m. m\<lparr>mesh_rotation :=
              vec ((vx ?n * pi) / 180) ((vy ?n * pi) / 180) ((vz ?n * pi) / 180)\<rparr>) (heap s))"
    by (rule heap_scale_kept [OF assms]) simp
  then show ?thesis using Some assms by (simp add: updateRotation_def Let_def scale_ok_def)
qed

lemma resetTransforms_scale_ok:
  assumes "scale_ok s"
  shows "scale_ok (resetTransforms s)"
proof (cases "meshRef s")
  case None
  then show ?thesis using assms
    by (simp add: resetTransforms_def Let_def scale_ok_def at_least_vec)
next
  case (Some i)
  have "list_all (\<lambda>m. at_least 0.1 (mesh_scale m))
          (update_mesh i (\<lambda>m. m\<lparr>mesh_position := vec 0 0 0, mesh_scale := vec 1 1 1,
              mesh_rotation := vec 0 0 0\<rparr>) (heap s))"
    by (rule update_mesh_all) (use assms in \<open>simp_all add: scale_ok_def at_least_vec\<close>)
  then show ?thesis using Some
    by (simp add: resetTransforms_def Let_def scale_ok_def at_least_vec)
qed

lemma clear_previous_mesh_scale_ok:
  assumes "scale_ok s"
  shows "scale_ok (clear_previous_mesh s)"
proof (cases "meshRef s")
  case None
  then show ?thesis using assms by (simp add: clear_previous_mesh_def)
next
  case (Some i)
  show ?thesis
  proof (cases "sceneRef s")
    case None
    then show ?thesis using Some assms by (simp add: clear_previous_mesh_def)
  next
    case (Some ch)
    have "list_all (\<lambda>m. at_least 0.1 (mesh_scale m))
            (update_mesh i (\<lambda>m. m\<lparr>geometry_disposed := True, material_disposed := True\<rparr>)
               (heap s))"
      by (rule heap_scale_kept [OF assms]) simp
    then show ?thesis using Some \<open>meshRef s = Some i\<close> assms
      by (simp add: clear_previous_mesh_def scale_ok_def)
  qed
qed

lemma install_mesh_fields:
  "scale (install_mesh g s) = scale s"
  "heap (install_mesh g s) = heap s @ [new_mesh (center_geometry g)]"
  by (simp_all add: install_mesh_def Let_def split: option.splits bool.splits)

lemma install_mesh_scale_ok: "scale_ok s \<Longrightarrow> scale_ok (install_mesh g s)"
  by (simp add: scale_ok_def install_mesh_fields new_mesh_def at_least_vec)

lemma finish_scale_ok:
  assumes "scale_ok s"
  shows "scale_ok (handleGenerate_finish e s)"
proof -
  have c: "\<And>err t. scale_ok t \<Longrightarrow> scale_ok (catch_block err t)"
    by (simp add: catch_block_def finally_block_def scale_ok_def)
  have f: "\<And>t. scale_ok t \<Longrightarrow> scale_ok (finally_block t)"
    by (simp add: finally_block_def scale_ok_def)
  have u: "\<And>x y. scale_ok (s\<lparr>generatedCode := x, currentStlData := y\<rparr>)"
    using assms by (simp add: scale_ok_def)
  show ?thesis
    by (simp add: handleGenerate_finish_def Let_def c f u assms clear_previous_mesh_scale_ok
        install_mesh_scale_ok split: sum.splits)
qed

lemma start_scale_ok: "scale_ok s \<Longrightarrow> scale_ok (fst (handleGenerate_start s))"
  by (simp add: handleGenerate_start_def scale_ok_def)

lemma step_scale_ok:
  assumes "scale_ok s"
  shows "scale_ok (fst (step ev (s, p)))"
proof (cases ev)
  case (SetPrompt x)
  with assms show ?thesis by (simp add: scale_ok_def)
next
  case (KeyDown k sh)
  with assms show ?thesis by (simp add: fst_issue start_scale_ok)
next
  case ClickGenerate
  with assms show ?thesis by (simp add: fst_issue start_scale_ok)
next
  case (Respond e)
  with assms show ?thesis by (simp add: finish_scale_ok split: list.splits)
next
  case (UpdatePosition a v)
  with assms show ?thesis by (simp add: updatePosition_scale_ok)
next
  case (UpdateScale a v)
  with assms show ?thesis by (simp add: updateScale_scale_ok)
next
  case (UpdateRotation a v)
  with assms show ?thesis by (simp add: updateRotation_scale_ok)
next
  case ResetTransforms
  with assms show ?thesis by (simp add: resetTransforms_scale_ok)
next
  case ToggleTheme
  with assms show ?thesis by (simp add: scale_ok_def init_scene_def)
qed

lemma run_scale_ok: "scale_ok (fst (run evs (mounted, [])))"
proof (rule run_invariant)
  show "scale_ok (fst (mounted, []))"
    by (simp add: scale_ok_def mounted_def initial_def init_scene_def at_least_vec)
qed (rule step_scale_ok)

lemma at_least_positive: "at_least 0.1 p \<Longrightarrow> 0 < get_axis b p"
  by (cases b) (simp_all add: at_least_def)

text \<open>
  Claim C9. \<open>updateScale\<close> stores \<open>max 0.1 v\<close> in the addressed component and, when a mesh
  is active, applies the same value to the mesh; inputs 0 and -5 both give 0.1. In every
  state the page can reach, all stored scale components and all scale components of
  every mesh are positive.
\<close>

theorem updateScale_clamps:
  "get_axis a (scale (updateScale a v s)) = max 0.1 v \<and>
   (meshRef s = Some i \<and> i < length (heap s) \<longrightarrow>
      get_axis a (mesh_scale (heap (updateScale a v s) ! i)) = max 0.1 v) \<and>
   get_axis a (scale (updateScale a 0 s)) = 0.1 \<and>
   get_axis a (scale (updateScale a (- 5) s)) = 0.1 \<and>
   0 < max 0.1 v \<and>
   (let t = fst (run evs (mounted, []))
    in (\<forall>b. 0 < get_axis b (scale t)) \<and>
       (\<forall>m\<in>set (heap t). \<forall>b. 0 < get_axis b (mesh_scale m)))"
proof -
  have inv: "let t = fst (run evs (mounted, []))
    in (\<forall>b. 0 < get_axis b (scale t)) \<and>
       (\<forall>m\<in>set (heap t). \<forall>b. 0 < get_axis b (mesh_scale m))"
    using run_scale_ok [of evs] unfolding scale_ok_def Let_def list_all_iff
    by (blast intro: at_least_positive)
  have st: "\<And>w. get_axis a (scale (updateScale a w s)) = max 0.1 w"
    by (simp add: updateScale_stored get_set_axis)
  have ap: "meshRef s = Some i \<and> i < length (heap s) \<longrightarrow>
      get_axis a (mesh_scale (heap (updateScale a v s) ! i)) = max 0.1 v"
    using st [of v] by (simp add: updateScale_applied get_axis_vec)
  have z: "get_axis a (scale (updateScale a 0 s)) = 0.1"
    "get_axis a (scale (updateScale a (- 5) s)) = 0.1"
    by (simp_all add: st)
  have "(0::real) < max 0.1 v" by (simp add: max_def)
  with st [of v] ap z inv show ?thesis by blast
qed

theorem updateScale_clamps_witness:
  "meshRef refining = Some 0 \<and> 0 < length (heap refining) \<and>
   get_axis X (mesh_scale (heap (updateScale X (- 5) refining) ! 0)) = 0.1 \<and>
   (let t = fst (run [SetPrompt ''a 10mm cube'', ClickGenerate, Respond cube_ext,
                      UpdateScale X (- 5)] (mounted, []))
    in heap t \<noteq> [] \<and> (\<forall>m\<in>set (heap t). \<forall>b. 0 < get_axis b (mesh_scale m)))"
proof -
  have r: "meshRef refining = Some 0" "0 < length (heap refining)"
    by (simp_all add: refining_def handler_defs cube_ext_def)
  have h: "heap (fst (run [SetPrompt ''a 10mm cube'', ClickGenerate, Respond cube_ext,
                      UpdateScale X (- 5)] (mounted, []))) \<noteq> []"
    by (simp add: handler_defs cube_ext_def)
  show ?thesis
    using updateScale_clamps [of X "- 5" refining 0
        "[SetPrompt ''a 10mm cube'', ClickGenerate, Respond cube_ext, UpdateScale X (- 5)]"]
      r h
    by (simp add: Let_def)
qed

lemma map_update_mesh:
  assumes "\<And>m. g (f m) = g m"
  shows "map g (update_mesh i f h) = map g h"
  by (simp add: update_mesh_def map_update assms list_update_same_conv)

lemma updatePosition_state:
  "(updatePosition a v s)\<lparr>position := position s, heap := heap s\<rparr> = s"
  "position (updatePosition a v s) = set_axis a v (position s)"
  "map (\<lambda>m. m\<lparr>mesh_position := vec 0 0 0\<rparr>) (heap (updatePosition a v s)) =
   map (\<lambda>m. m\<lparr>mesh_position := vec 0 0 0\<rparr>) (heap s)"
  by (simp_all add: updatePosition_def Let_def map_update_mesh split: option.splits)

lemma updateScale_state:
  "(updateScale a v s)\<lparr>scale := scale s, heap := heap s\<rparr> = s"
  "map (\<lambda>m. m\<lparr>mesh_scale := vec 0 0 0\<rparr>) (heap (updateScale a v s)) =
   map (\<lambda>m. m\<lparr>mesh_scale := vec 0 0 0\<rparr>) (heap s)"
  by (simp_all add: updateScale_def Let_def map_update_mesh split: option.splits)

lemma updateRotation_state:
  "(updateRotation a v s)\<lparr>rotation := rotation s, heap := heap s\<rparr> = s"
  "rotation (updateRotation a v s) = set_axis a v (rotation s)"
  "map (\<lambda>m. m\<lparr>mesh_rotation := vec 0 0 0\<rparr>) (heap (updateRotation a v s)) =
   map (\<lambda>m. m\<lparr>mesh_rotation := vec 0 0 0\<rparr>) (heap s)"
  by (simp_all add: updateRotation_def Let_def map_update_mesh split: option.splits)

text \<open>
  Claim C10. Each setter writes the addressed component of its own stored vector and
  leaves the other two components as they were. Apart from that vector and the mesh
  objects, the state after the call is the state before it (prompt, session fields,
  error, in-flight flag, the other two vectors, the scene, camera and mesh references).
  In every mesh object, all fields other than the transform vector of the same kind
  (geometry, disposal state and the other two applied vectors) are unchanged.
\<close>

theorem setters_change_one_component:
  "(let s' = updatePosition a v s
    in get_axis a (position s') = v \<and>
       (\<forall>b. b \<noteq> a \<longrightarrow> get_axis b (position s') = get_axis b (position s)) \<and>
       s'\<lparr>position := position s, heap := heap s\<rparr> = s \<and>
       map (\<lambda>m. m\<lparr>mesh_position := vec 0 0 0\<rparr>) (heap s') =
       map (\<lambda>m. m\<lparr>mesh_position := vec 0 0 0\<rparr>) (heap s)) \<and>
   (let s' = updateScale a v s
    in get_axis a (scale s') = max 0.1 v \<and>
       (\<forall>b. b \<noteq> a \<longrightarrow> get_axis b (scale s') = get_axis b (scale s)) \<and>
       s'\<lparr>scale := scale s, heap := heap s\<rparr> = s \<and>
       map (\<lambda>m. m\<lparr>mesh_scale := vec 0 0 0\<rparr>) (heap s') =
       map (\<lambda>m. m\<lparr>mesh_scale := vec 0 0 0\<rparr>) (heap s)) \<and>
   (let s' = updateRotation a v s
    in get_axis a (rotation s') = v \<and>
       (\<forall>b. b \<noteq> a \<longrightarrow> get_axis b (rotation s') = get_axis b (rotation s)) \<and>
       s'\<lparr>rotation := rotation s, heap := heap s\<rparr> = s \<and>
       map (\<lambda>m. m\<lparr>mesh_rotation := vec 0 0 0\<rparr>) (heap s') =
       map (\<lambda>m. m\<lparr>mesh_rotation := vec 0 0 0\<rparr>) (heap s))"
  unfolding Let_def
  by (intro conjI allI impI)
    (simp_all add: updatePosition_state updateScale_state updateRotation_state
      updateScale_stored get_set_axis get_set_axis_other)

theorem setters_change_one_component_witness:
  "Y \<noteq> X \<and>
   get_axis X (position (updatePosition X 5 refining)) = 5 \<and>
   get_axis Y (position (updatePosition X 5 refining)) = get_axis Y (position refining) \<and>
   get_axis Y (scale (updateScale X 5 refining)) = get_axis Y (scale refining) \<and>
   get_axis Y (rotation (updateRotation X 5 refining)) = get_axis Y (rotation refining) \<and>
   prompt (updatePosition X 5 refining) = ''make it taller''"
proof -
  note t = setters_change_one_component [of X 5 refining, unfolded Let_def]
  have n: "Y \<noteq> X" by simp
  have p: "prompt refining = ''make it taller''"
    by (simp add: refining_def handler_defs cube_ext_def)
  have "prompt ((updatePosition X 5 refining)\<lparr>position := position refining,
          heap := heap refining\<rparr>) = prompt refining"
    using t by simp
  then have q: "prompt (updatePosition X 5 refining) = ''make it taller''"
    using p by simp
  from t n q show ?thesis by blast
qed

text \<open>With a mesh active, every setter and the reset apply what they store.\<close>

lemma setters_store_and_apply:
  assumes "meshRef s = Some i" and "i < length (heap s)"
  shows "mesh_position (heap (updatePosition a v s) ! i) =
           vec (vx (position (updatePosition a v s))) (vy (position (updatePosition a v s)))
               (vz (position (updatePosition a v s)))"
    and "mesh_scale (heap (updateScale a v s) ! i) =
           vec (vx (scale (updateScale a v s))) (vy (scale (updateScale a v s)))
               (vz (scale (updateScale a v s)))"
    and "mesh_rotation (heap (updateRotation a v s) ! i) =
           vec ((vx (rotation (updateRotation a v s)) * pi) / 180)
               ((vy (rotation (updateRotation a v s)) * pi) / 180)
               ((vz (rotation (updateRotation a v s)) * pi) / 180)"
    and "mesh_position (heap (resetTransforms s) ! i) = position (resetTransforms s) \<and>
         mesh_scale (heap (resetTransforms s) ! i) = scale (resetTransforms s) \<and>
         mesh_rotation (heap (resetTransforms s) ! i) = rotation (resetTransforms s)"
  using assms
  by (simp_all add: updatePosition_def updateScale_def updateRotation_def resetTransforms_def
      Let_def update_mesh_def)

subsection \<open>Mesh replacement\<close>

lemma one_mesh_fields:
  "sceneRef s' = sceneRef s \<Longrightarrow> meshRef s' = meshRef s \<Longrightarrow> one_mesh s' = one_mesh s"
  by (simp add: one_mesh_def)

lemma transform_refs:
  "sceneRef (updatePosition a v s) = sceneRef s" "meshRef (updatePosition a v s) = meshRef s"
  "sceneRef (updateScale a v s) = sceneRef s" "meshRef (updateScale a v s) = meshRef s"
  "sceneRef (updateRotation a v s) = sceneRef s" "meshRef (updateRotation a v s) = meshRef s"
  "sceneRef (resetTransforms s) = sceneRef s" "meshRef (resetTransforms s) = meshRef s"
  by (simp_all add: updatePosition_def updateScale_def updateRotation_def resetTransforms_def
      Let_def split: option.splits)

lemma clear_previous_mesh_empties:
  assumes "one_mesh s"
  shows "sceneRef (clear_previous_mesh s) = None \<or> sceneRef (clear_previous_mesh s) = Some []"
  using assms by (auto simp: one_mesh_def clear_previous_mesh_def split: option.splits)

lemma install_mesh_refs:
  "meshRef (install_mesh g s) = Some (length (heap s))"
  "sceneRef (install_mesh g s) = map_option (\<lambda>children. children @ [length (heap s)]) (sceneRef s)"
  by (simp_all add: install_mesh_def Let_def split: option.splits bool.splits)

lemma install_mesh_one:
  assumes "sceneRef s = None \<or> sceneRef s = Some []"
  shows "one_mesh (install_mesh g s)"
  using assms by (auto simp: one_mesh_def install_mesh_refs)

lemma empty_scene_one_mesh: "sceneRef s = None \<or> sceneRef s = Some [] \<Longrightarrow> one_mesh s"
  by (auto simp: one_mesh_def)

lemma finish_one_mesh:
  assumes "one_mesh s"
  shows "one_mesh (handleGenerate_finish e s)"
proof -
  have c: "\<And>err t. one_mesh (catch_block err t) = one_mesh t"
    by (simp add: catch_block_def finally_block_def one_mesh_def)
  have f: "\<And>t. one_mesh (finally_block t) = one_mesh t"
    by (simp add: finally_block_def one_mesh_def)
  have u: "\<And>x y. one_mesh (s\<lparr>generatedCode := x, currentStlData := y\<rparr>)"
    using assms by (simp add: one_mesh_def)
  have cl: "\<And>x y. one_mesh (clear_previous_mesh
              (s\<lparr>generatedCode := x, currentStlData := y\<rparr>))"
    using clear_previous_mesh_empties [OF u] by (rule empty_scene_one_mesh)
  have ins: "\<And>x y g. one_mesh (install_mesh g (clear_previous_mesh
              (s\<lparr>generatedCode := x, currentStlData := y\<rparr>)))"
    using clear_previous_mesh_empties [OF u] by (rule install_mesh_one)
  show ?thesis
    by (simp add: handleGenerate_finish_def Let_def c f assms cl ins split: sum.splits)
qed

lemma start_one_mesh: "one_mesh (fst (handleGenerate_start s)) = one_mesh s"
  by (rule one_mesh_fields) (simp_all add: handleGenerate_start_def)

lemma transform_one_mesh:
  "one_mesh (updatePosition a v s) = one_mesh s"
  "one_mesh (updateScale a v s) = one_mesh s"
  "one_mesh (updateRotation a v s) = one_mesh s"
  "one_mesh (resetTransforms s) = one_mesh s"
  by (rule one_mesh_fields; simp add: transform_refs)+

lemma step_one_mesh:
  assumes "one_mesh s"
  shows "one_mesh (fst (step ev (s, p)))"
proof (cases ev)
  case (SetPrompt x)
  have "one_mesh (s\<lparr>prompt := x\<rparr>) = one_mesh s" by (rule one_mesh_fields) simp_all
  with assms SetPrompt show ?thesis by simp
next
  case (KeyDown k sh)
  with assms show ?thesis by (simp add: fst_issue start_one_mesh)
next
  case ClickGenerate
  with assms show ?thesis by (simp add: fst_issue start_one_mesh)
next
  case (Respond e)
  with assms show ?thesis by (simp add: finish_one_mesh split: list.splits)
next
  case (UpdatePosition a v)
  with assms show ?thesis by (simp add: transform_one_mesh)
next
  case (UpdateScale a v)
  with assms show ?thesis by (simp add: transform_one_mesh)
next
  case (UpdateRotation a v)
  with assms show ?thesis by (simp add: transform_one_mesh)
next
  case ResetTransforms
  with assms show ?thesis by (simp add: transform_one_mesh)
next
  case ToggleTheme
  then show ?thesis by (simp add: one_mesh_def init_scene_def)
qed

text \<open>In every state the page can reach, the scene holds at most one generated mesh.\<close>

lemma scene_holds_at_most_one_mesh:
  "case sceneRef (fst (run evs (mounted, []))) of None \<Rightarrow> True
   | Some children \<Rightarrow> length children \<le> 1"
proof -
  have "one_mesh (fst (run evs (mounted, [])))"
  proof (rule run_invariant)
    show "one_mesh (fst (mounted, []))"
      by (simp add: one_mesh_def mounted_def initial_def init_scene_def)
  qed (rule step_one_mesh)
  then show ?thesis by (auto simp: one_mesh_def split: option.splits)
qed

subsection \<open>Behaviour at the inputs where the page departs from the claims\<close>

text \<open>
  Claim C3. After a model is generated, moved to x = 5 and a second model is generated,
  the stored position is still (5, 0, 0) while the new active mesh sits at (0, 0, 0):
  \<open>handleGenerate\<close> neither resets the stored transform nor applies it to the mesh it
  installs.
\<close>

theorem stored_position_not_applied_to_new_mesh:
  "meshRef regenerated = Some 1 \<and> position regenerated = vec 5 0 0 \<and>
   mesh_position (heap regenerated ! 1) = vec 0 0 0"
  by (simp add: regenerated_def handler_defs cube_ext_def)

text \<open>
  Claim C4. After the second generation the scene holds only the new mesh, and the
  geometry and material of the replaced mesh are disposed, but the geometry and
  material of its wireframe child are not.
\<close>

theorem wireframe_of_replaced_mesh_not_disposed:
  "sceneRef regenerated = Some [1] \<and>
   geometry_disposed (heap regenerated ! 0) \<and> material_disposed (heap regenerated ! 0) \<and>
   \<not> wireframe_geometry_disposed (heap regenerated ! 0) \<and>
   \<not> wireframe_material_disposed (heap regenerated ! 0)"
  by (simp add: regenerated_def handler_defs cube_ext_def)

text \<open>
  Claim C6. With one request pending and the in-flight flag set, a click on the generate
  button does nothing, but Enter in the prompt field issues a second request.
\<close>

theorem enter_key_issues_second_request:
  "(let c = run [SetPrompt ''a cube'', KeyDown ''Enter'' False] (mounted, [])
    in loading (fst c) \<and> length (snd c) = 1 \<and>
       step ClickGenerate c = c \<and>
       length (snd (step (KeyDown ''Enter'' False) c)) = 2)"
  by (simp add: handler_defs)

end
